theory Spec2Isabelle
  imports Main
begin

section \<open>Platform: strings\<close>

text \<open>
  JavaScript strings are modelled as \<open>string\<close> (byte lists). The string methods
  the component calls are \<open>split(' ')\<close>, \<open>join(' ')\<close> and \<open>toLowerCase()\<close>.
  \<open>''''.split(' ')\<close> is the one-element list holding the empty string, and two
  adjacent spaces give an empty string between them.
\<close>

fun split_sp :: "string \<Rightarrow> string list" where
  "split_sp [] = [[]]"
| "split_sp (c # cs) =
     (if c = CHR '' '' then [] # split_sp cs
      else (case split_sp cs of [] \<Rightarrow> [[c]] | w # ws \<Rightarrow> (c # w) # ws))"

fun join_sp :: "string list \<Rightarrow> string" where
  "join_sp [] = []"
| "join_sp [w] = w"
| "join_sp (w # v # ws) = w @ CHR '' '' # join_sp (v # ws)"

definition lower_char :: "char \<Rightarrow> char" where
  "lower_char c =
     (let n = (of_char c :: nat) in if 65 \<le> n \<and> n \<le> 90 then char_of (n + 32) else c)"

definition toLowerCase :: "string \<Rightarrow> string" where
  "toLowerCase s = map lower_char s"

text \<open>
  A string is held as the bytes of its UTF-8 form. \<open>toLowerCase\<close> changes the ASCII
  capital letters and leaves the other bytes. The component only compares its results
  with the words \<open>true\<close>, \<open>false\<close>, \<open>hidden\<close> and \<open>button\<close>; no letter outside
  ASCII is lowered into a letter of these words, so the comparisons come out as in
  JavaScript.
\<close>

definition is_digit :: "char \<Rightarrow> bool" where
  "is_digit c = (let n = (of_char c :: nat) in 48 \<le> n \<and> n \<le> 57)"

section \<open>Platform: the document\<close>

text \<open>
  An element is an object with an identity (\<open>node\<close>); the document is the tree
  of these identities, and a store gives each element its tag name, its attributes
  and its class list. The \<open>class\<close> attribute is held as its list of tokens in
  \<open>classList\<close>; \<open>attributes\<close> holds the other attributes. \<open>type_prop\<close>,
  \<open>disabled_prop\<close> and \<open>href_prop\<close> are the DOM properties \<open>type\<close>,
  \<open>disabled\<close> and \<open>href\<close> read by \<open>isFocusable\<close> (\<open>type\<close> is undefined on
  elements that have no such property).
\<close>

type_synonym node = nat

record html_element =
  nodeName :: string
  attributes :: "string \<rightharpoonup> string"
  classList :: "string list"
  type_prop :: "string option"
  disabled_prop :: bool
  href_prop :: string

datatype dtree = Elem node "dtree list"

text \<open>Every write the component performs is also appended to a log, in program order.\<close>

datatype call =
    SetAttribute node string string
  | RemoveAttribute node string
  | ClassListAdd node string
  | AddEventListener node string
  | RemoveEventListener node string

datatype js_error = SyntaxError | TypeError | MissingControlError

text \<open>
  The state holds the tree of the document and, in \<open>fragments\<close>, the trees of the
  elements that are not in the document; an element that occurs in no tree has no
  parent and no children. \<open>quirks_mode\<close> tells whether the document is in quirks mode.

  What the selector engine of the platform answers for a selector text: the text is
  not a valid selector, or it selects an element or null. \<open>other_selectors\<close> is that
  engine, a parameter of the document state, for the selector texts whose outcome is
  not fixed below; its answer may depend on the whole tree and on every attribute and
  class of every element.
\<close>

datatype selection = Invalid_selector | Selected "node option"

record dom =
  document :: dtree
  element_of :: "node \<Rightarrow> html_element"
  calls :: "call list"
  listeners :: "(node \<times> string) list"
  random_source :: "nat \<Rightarrow> string"
  random_drawn :: nat
  fragments :: "dtree list"
  quirks_mode :: bool
  other_selectors :: "dtree \<Rightarrow> (node \<Rightarrow> html_element) \<Rightarrow> string \<Rightarrow> selection"

fun root_of :: "dtree \<Rightarrow> node" where
  "root_of (Elem n ts) = n"

fun children_of :: "dtree \<Rightarrow> dtree list" where
  "children_of (Elem n ts) = ts"

fun preorder :: "dtree \<Rightarrow> node list" where
  "preorder (Elem n ts) = n # concat (map preorder ts)"

fun subtrees :: "dtree \<Rightarrow> dtree list" where
  "subtrees (Elem n ts) = Elem n ts # concat (map subtrees ts)"

definition trees :: "dom \<Rightarrow> dtree list" where
  "trees d = document d # fragments d"

definition descendants :: "dtree list \<Rightarrow> node \<Rightarrow> node list" where
  "descendants ts n =
     (case find (\<lambda>s. root_of s = n) (concat (map subtrees ts)) of
        None \<Rightarrow> []
      | Some s \<Rightarrow> concat (map preorder (children_of s)))"

text \<open>
  The chain \<open>n.nextElementSibling\<close>, \<open>n.nextElementSibling.nextElementSibling\<close>, ...
  up to the last child of the parent of \<open>n\<close>.
\<close>

definition following_siblings :: "dtree list \<Rightarrow> node \<Rightarrow> node list" where
  "following_siblings ts n =
     (case find (\<lambda>s. n \<in> set (map root_of (children_of s))) (concat (map subtrees ts)) of
        None \<Rightarrow> []
      | Some s \<Rightarrow> tl (dropWhile (\<lambda>m. m \<noteq> n) (map root_of (children_of s))))"

definition hasAttribute :: "dom \<Rightarrow> node \<Rightarrow> string \<Rightarrow> bool" where
  "hasAttribute d n a = (attributes (element_of d n) a \<noteq> None)"

definition getAttribute :: "dom \<Rightarrow> node \<Rightarrow> string \<Rightarrow> string option" where
  "getAttribute d n a = attributes (element_of d n) a"

definition update_attributes :: "node \<Rightarrow> (string \<rightharpoonup> string) \<Rightarrow> dom \<Rightarrow> dom" where
  "update_attributes n m d =
     d\<lparr>element_of := (element_of d)(n := (element_of d n)\<lparr>attributes := m\<rparr>)\<rparr>"

definition setAttribute :: "node \<Rightarrow> string \<Rightarrow> string \<Rightarrow> dom \<Rightarrow> dom" where
  "setAttribute n a v d =
     (update_attributes n ((attributes (element_of d n))(a \<mapsto> v)) d)
       \<lparr>calls := calls d @ [SetAttribute n a v]\<rparr>"

definition removeAttribute :: "node \<Rightarrow> string \<Rightarrow> dom \<Rightarrow> dom" where
  "removeAttribute n a d =
     (update_attributes n ((attributes (element_of d n))(a := None)) d)
       \<lparr>calls := calls d @ [RemoveAttribute n a]\<rparr>"

definition classList_contains :: "dom \<Rightarrow> node \<Rightarrow> string \<Rightarrow> bool" where
  "classList_contains d n c = (c \<in> set (classList (element_of d n)))"

definition classList_add :: "node \<Rightarrow> string \<Rightarrow> dom \<Rightarrow> dom" where
  "classList_add n c d =
     d\<lparr>element_of := (element_of d)
          (n := (element_of d n)
             \<lparr>classList := (if c \<in> set (classList (element_of d n))
                            then classList (element_of d n)
                            else classList (element_of d n) @ [c])\<rparr>),
       calls := calls d @ [ClassListAdd n c]\<rparr>"

text \<open>The \<open>id\<close> property reflects the \<open>id\<close> attribute; it is the empty string when
  the attribute is absent.\<close>

definition id_prop :: "dom \<Rightarrow> node \<Rightarrow> string" where
  "id_prop d n = (case getAttribute d n ''id'' of None \<Rightarrow> [] | Some v \<Rightarrow> v)"

definition addEventListener :: "node \<Rightarrow> string \<Rightarrow> dom \<Rightarrow> dom" where
  "addEventListener n ev d =
     d\<lparr>listeners := (if (n, ev) \<in> set (listeners d) then listeners d
                      else listeners d @ [(n, ev)]),
       calls := calls d @ [AddEventListener n ev]\<rparr>"

definition removeEventListener :: "node \<Rightarrow> string \<Rightarrow> dom \<Rightarrow> dom" where
  "removeEventListener n ev d =
     d\<lparr>listeners := filter (\<lambda>l. l \<noteq> (n, ev)) (listeners d),
       calls := calls d @ [RemoveEventListener n ev]\<rparr>"

subsection \<open>Selectors\<close>

text \<open>
  Id and class selectors compare names exactly, and without regard to the case of
  ASCII letters when the document is in quirks mode.
\<close>

definition same_name :: "dom \<Rightarrow> string \<Rightarrow> string \<Rightarrow> bool" where
  "same_name d x y = (if quirks_mode d then toLowerCase x = toLowerCase y else x = y)"

definition matches_id :: "dom \<Rightarrow> node \<Rightarrow> string \<Rightarrow> bool" where
  "matches_id d n i =
     (case getAttribute d n ''id'' of None \<Rightarrow> False | Some v \<Rightarrow> same_name d v i)"

definition matches_class :: "dom \<Rightarrow> node \<Rightarrow> string \<Rightarrow> bool" where
  "matches_class d n c = list_ex (\<lambda>k. same_name d k c) (classList (element_of d n))"

text \<open>
  \<open>document.querySelector('#' + i)\<close> parses its argument as a CSS selector.
  \<^item> When \<open>i\<close> is a plain identifier (a letter or underscore, then letters, digits,
    hyphens and underscores), \<open>#i\<close> is an id selector: the call returns the first
    element of the document, in tree order, whose \<open>id\<close> attribute matches \<open>i\<close>, or
    null.
  \<^item> When \<open>i\<close> is empty or starts with a digit, \<open>#i\<close> is not a valid selector and
    the call throws a SyntaxError.
  \<^item> Any other text (\<open>a.b\<close>, \<open>a,#b\<close>, \<open>a[hidden]\<close>, escapes, other letters) is
    answered by the engine \<open>other_selectors\<close> of the document state: an invalid
    selector throws a SyntaxError, a valid one returns what it selects.
\<close>

definition name_start :: "char \<Rightarrow> bool" where
  "name_start c =
     (let n = (of_char c :: nat)
      in (65 \<le> n \<and> n \<le> 90) \<or> (97 \<le> n \<and> n \<le> 122) \<or> n = 95)"

definition name_char :: "char \<Rightarrow> bool" where
  "name_char c = (name_start c \<or> is_digit c \<or> c = CHR ''-'')"

fun plain_identifier :: "string \<Rightarrow> bool" where
  "plain_identifier [] = False"
| "plain_identifier (c # cs) = (name_start c \<and> list_all name_char cs)"

definition querySelector_id :: "dom \<Rightarrow> string \<Rightarrow> js_error + node option" where
  "querySelector_id d i =
     (if plain_identifier i
      then Inr (find (\<lambda>n. matches_id d n i) (preorder (document d)))
      else (case i of
              [] \<Rightarrow> Inl SyntaxError
            | c # cs \<Rightarrow>
                if is_digit c then Inl SyntaxError
                else (case other_selectors d (document d) (element_of d) (CHR ''#'' # i) of
                        Invalid_selector \<Rightarrow> Inl SyntaxError
                      | Selected el \<Rightarrow> Inr el)))"

text \<open>\<open>root.querySelector('.' + c)\<close> for a class name \<open>c\<close> that is a plain
  identifier: the first descendant of \<open>root\<close>, in tree order, with a matching class.\<close>

definition querySelector_class :: "dom \<Rightarrow> node \<Rightarrow> string \<Rightarrow> node option" where
  "querySelector_class d r c =
     find (\<lambda>n. matches_class d n c) (descendants (trees d) r)"

section \<open>Platform: numbers in strings\<close>

text \<open>
  \<open>isNaN(s)\<close> converts the string to a number: surrounding white space is dropped,
  the empty string is 0, and otherwise the text must be a signed decimal literal
  (digits, fraction, exponent, or \<open>Infinity\<close>) or an unsigned literal with prefix
  \<open>0x\<close>, \<open>0o\<close> or \<open>0b\<close>. \<open>parseInt(s)\<close> drops leading white space and a sign
  and reads the longest prefix of digits (hexadecimal after \<open>0x\<close>); with no digit the
  result is NaN, here \<open>None\<close>. The value of \<open>parseInt\<close> is kept exact, the source
  only compares it with -1.

  White space is the white space and the line terminators of ECMAScript: the ASCII
  characters 9 to 13 and 32, and U+00A0, U+1680, U+2000 to U+200A, U+2028, U+2029,
  U+202F, U+205F, U+3000 and U+FEFF, here in their UTF-8 bytes. \<open>skip_space\<close> drops
  them at the front of a string; its arguments recognise the characters of two and of
  three bytes, in the order the bytes are met, so that the same function serves on the
  reversed string for the white space at the end.
\<close>

definition ascii_space :: "char \<Rightarrow> bool" where
  "ascii_space c = (let n = (of_char c :: nat) in (9 \<le> n \<and> n \<le> 13) \<or> n = 32)"

definition space2 :: "char \<Rightarrow> char \<Rightarrow> bool" where
  "space2 a b = ((of_char a :: nat) = 0xC2 \<and> (of_char b :: nat) = 0xA0)"

definition space3 :: "char \<Rightarrow> char \<Rightarrow> char \<Rightarrow> bool" where
  "space3 a b c =
     (let x = (of_char a :: nat); y = (of_char b :: nat); z = (of_char c :: nat)
      in (x = 0xE1 \<and> y = 0x9A \<and> z = 0x80) \<or>
         (x = 0xE2 \<and> y = 0x80 \<and>
            ((0x80 \<le> z \<and> z \<le> 0x8A) \<or> z = 0xA8 \<or> z = 0xA9 \<or> z = 0xAF)) \<or>
         (x = 0xE2 \<and> y = 0x81 \<and> z = 0x9F) \<or>
         (x = 0xE3 \<and> y = 0x80 \<and> z = 0x80) \<or>
         (x = 0xEF \<and> y = 0xBB \<and> z = 0xBF))"

fun skip_space ::
  "(char \<Rightarrow> char \<Rightarrow> bool) \<Rightarrow> (char \<Rightarrow> char \<Rightarrow> char \<Rightarrow> bool) \<Rightarrow> string \<Rightarrow> string" where
  "skip_space p2 p3 (a # b # c # s) =
     (if ascii_space a then skip_space p2 p3 (b # c # s)
      else if p2 a b then skip_space p2 p3 (c # s)
      else if p3 a b c then skip_space p2 p3 s
      else a # b # c # s)"
| "skip_space p2 p3 [a, b] =
     (if ascii_space a then skip_space p2 p3 [b]
      else if p2 a b then []
      else [a, b])"
| "skip_space p2 p3 [a] = (if ascii_space a then [] else [a])"
| "skip_space p2 p3 [] = []"

definition trim_start :: "string \<Rightarrow> string" where
  "trim_start s = skip_space space2 space3 s"

definition trim_end :: "string \<Rightarrow> string" where
  "trim_end s = rev (skip_space (\<lambda>b a. space2 a b) (\<lambda>c b a. space3 a b c) (rev s))"

definition is_hex_digit :: "char \<Rightarrow> bool" where
  "is_hex_digit c =
     (let n = (of_char c :: nat)
      in (48 \<le> n \<and> n \<le> 57) \<or> (65 \<le> n \<and> n \<le> 70) \<or> (97 \<le> n \<and> n \<le> 102))"

definition digit_value :: "char \<Rightarrow> int" where
  "digit_value c =
     (let n = (of_char c :: nat)
      in if n \<le> 57 then int n - 48 else if n \<le> 70 then int n - 55 else int n - 87)"

definition strip_sign :: "string \<Rightarrow> string" where
  "strip_sign s =
     (case s of [] \<Rightarrow> [] | c # cs \<Rightarrow> if c = CHR ''+'' \<or> c = CHR ''-'' then cs else s)"

definition exponent_ok :: "string \<Rightarrow> bool" where
  "exponent_ok s =
     (case s of
        [] \<Rightarrow> True
      | c # cs \<Rightarrow> (c = CHR ''e'' \<or> c = CHR ''E'') \<and> strip_sign cs \<noteq> [] \<and>
                  list_all is_digit (strip_sign cs))"

definition decimal_literal :: "string \<Rightarrow> bool" where
  "decimal_literal s =
     (s = ''Infinity'' \<or>
      (case dropWhile is_digit s of
         [] \<Rightarrow> takeWhile is_digit s \<noteq> []
       | c # t \<Rightarrow>
           if c = CHR ''.''
           then (takeWhile is_digit s \<noteq> [] \<or> takeWhile is_digit t \<noteq> []) \<and>
                exponent_ok (dropWhile is_digit t)
           else takeWhile is_digit s \<noteq> [] \<and> exponent_ok (c # t)))"

definition radix_literal :: "string \<Rightarrow> bool" where
  "radix_literal s =
     (let p = toLowerCase (take 2 s); ds = drop 2 s
      in ds \<noteq> [] \<and>
         ((p = ''0x'' \<and> list_all is_hex_digit ds) \<or>
          (p = ''0o'' \<and> list_all (\<lambda>c. is_digit c \<and> c \<noteq> CHR ''8'' \<and> c \<noteq> CHR ''9'') ds) \<or>
          (p = ''0b'' \<and> list_all (\<lambda>c. c = CHR ''0'' \<or> c = CHR ''1'') ds)))"

definition isNaN :: "string \<Rightarrow> bool" where
  "isNaN s =
     (let t = trim_end (trim_start s)
      in \<not> (t = [] \<or> decimal_literal (strip_sign t) \<or> radix_literal t))"

definition parseInt :: "string \<Rightarrow> int option" where
  "parseInt s =
     (let t = trim_start s;
          u = strip_sign t;
          hex = (toLowerCase (take 2 u) = ''0x'');
          ds = (if hex then takeWhile is_hex_digit (drop 2 u) else takeWhile is_digit u);
          v = foldl (\<lambda>a c. a * (if hex then 16 else 10) + digit_value c) 0 ds
      in if ds = [] then None
         else Some (if take 1 t = ''-'' then - v else v))"

text \<open>\<open>re.test(s)\<close> for a regular expression that is an alternative of plain words:
  one of the words occurs in \<open>s\<close>.\<close>

fun occurs_in :: "string \<Rightarrow> string \<Rightarrow> bool" where
  "occurs_in w [] = (w = [])"
| "occurs_in w (c # cs) = (take (length w) (c # cs) = w \<or> occurs_in w cs)"

section \<open>The collapsible component\<close>

text \<open>\<open>isFocusable\<close>: a numeric \<open>tabindex\<close> decides; otherwise the tag name does.
  Reading \<open>type\<close> on an element that has no such property throws a TypeError.\<close>

definition isFocusable :: "dom \<Rightarrow> node \<Rightarrow> js_error + bool" where
  "isFocusable d n =
     (case (case getAttribute d n ''tabindex'' of
              None \<Rightarrow> None
            | Some tabindex \<Rightarrow>
                if \<not> isNaN tabindex
                then Some (case parseInt tabindex of None \<Rightarrow> False | Some v \<Rightarrow> v > - 1)
                else None) of
        Some b \<Rightarrow> Inr b
      | None \<Rightarrow>
          (let name = nodeName (element_of d n)
           in if list_ex (\<lambda>w. occurs_in w (toLowerCase name))
                   [''input'', ''select'', ''textarea'', ''button'']
              then (case type_prop (element_of d n) of
                      None \<Rightarrow> Inl TypeError
                    | Some ty \<Rightarrow>
                        Inr (toLowerCase ty \<noteq> ''hidden'' \<and> \<not> disabled_prop (element_of d n)))
              else if name = ''A'' then Inr (href_prop (element_of d n) \<noteq> [])
              else Inr False))"

definition JS_COLLAPSIBLE :: string where
  "JS_COLLAPSIBLE = ''mdlext-js-collapsible''"

definition COLLAPSIBLE_CONTROL_CLASS :: string where
  "COLLAPSIBLE_CONTROL_CLASS = ''mdlext-collapsible-control''"

definition COLLAPSIBLE_REGION_CLASS :: string where
  "COLLAPSIBLE_REGION_CLASS = ''mdlext-collapsible-region''"

text \<open>The fields of a constructed \<open>Collapsible\<close>, under the names of their
  getters: the root element and the control element found by \<open>init\<close>.\<close>

record collapsible =
  element :: node
  controlElement :: node

text \<open>\<open>get isDisabled\<close>, \<open>get isExpanded\<close>, \<open>get regionIds\<close>: an absent attribute
  makes the left conjunct of the source false.\<close>

definition isDisabled :: "collapsible \<Rightarrow> dom \<Rightarrow> bool" where
  "isDisabled w d =
     ((case getAttribute d (controlElement w) ''disabled'' of
         None \<Rightarrow> False | Some v \<Rightarrow> toLowerCase v \<noteq> ''false'') \<or>
      (case getAttribute d (controlElement w) ''aria-disabled'' of
         None \<Rightarrow> False | Some v \<Rightarrow> toLowerCase v \<noteq> ''false''))"

definition isExpanded :: "collapsible \<Rightarrow> dom \<Rightarrow> bool" where
  "isExpanded w d =
     (case getAttribute d (controlElement w) ''aria-expanded'' of
        None \<Rightarrow> False | Some v \<Rightarrow> toLowerCase v = ''true'')"

definition regionIds :: "collapsible \<Rightarrow> dom \<Rightarrow> string list" where
  "regionIds w d =
     (case getAttribute d (controlElement w) ''aria-controls'' of
        None \<Rightarrow> [] | Some v \<Rightarrow> split_sp v)"

text \<open>\<open>get regionElements\<close>: \<open>map\<close> runs the selector for each id in turn, so the
  first invalid selector throws; \<open>filter\<close> then drops the nulls.\<close>

fun query_ids :: "dom \<Rightarrow> string list \<Rightarrow> js_error + node option list" where
  "query_ids d [] = Inr []"
| "query_ids d (i # is) =
     (case querySelector_id d i of
        Inl e \<Rightarrow> Inl e
      | Inr el \<Rightarrow> (case query_ids d is of Inl e \<Rightarrow> Inl e | Inr els \<Rightarrow> Inr (el # els)))"

fun non_null :: "'a option list \<Rightarrow> 'a list" where
  "non_null [] = []"
| "non_null (None # els) = non_null els"
| "non_null (Some el # els) = el # non_null els"

definition regionElements :: "collapsible \<Rightarrow> dom \<Rightarrow> js_error + node list" where
  "regionElements w d =
     (case query_ids d (regionIds w d) of Inl e \<Rightarrow> Inl e | Inr els \<Rightarrow> Inr (non_null els))"

text \<open>The loop of \<open>collapse\<close>, \<open>for (let i = regions.length - 1; i >= 0; --i)\<close>:
  the counter of \<open>hide_from\<close> is \<open>i + 1\<close>.\<close>

fun hide_from :: "node list \<Rightarrow> nat \<Rightarrow> dom \<Rightarrow> dom" where
  "hide_from regions 0 d = d"
| "hide_from regions (Suc i) d =
     hide_from regions i (setAttribute (regions ! i) ''hidden'' [] d)"

definition collapse :: "collapsible \<Rightarrow> dom \<Rightarrow> (js_error + unit) \<times> dom" where
  "collapse w d =
     (let d1 = setAttribute (controlElement w) ''aria-expanded'' ''false'' d
      in case regionElements w d1 of
           Inl e \<Rightarrow> (Inl e, d1)
         | Inr regions \<Rightarrow> (Inr (), hide_from regions (length regions) d1))"

definition expand :: "collapsible \<Rightarrow> dom \<Rightarrow> (js_error + unit) \<times> dom" where
  "expand w d =
     (let d1 = setAttribute (controlElement w) ''aria-expanded'' ''true'' d
      in case regionElements w d1 of
           Inl e \<Rightarrow> (Inl e, d1)
         | Inr regions \<Rightarrow>
             (Inr (), fold (\<lambda>region. removeAttribute region ''hidden'') regions d1))"

definition toggle :: "collapsible \<Rightarrow> dom \<Rightarrow> (js_error + unit) \<times> dom" where
  "toggle w d = (if isExpanded w d then collapse w d else expand w d)"

text \<open>\<open>addRegionId\<close>: \<open>ids.find(...)\<close> returns the element found or undefined, and
  \<open>!\<close> holds of undefined and of the empty string.\<close>

definition addRegionId :: "collapsible \<Rightarrow> string \<Rightarrow> dom \<Rightarrow> dom" where
  "addRegionId w regionId d =
     (let ids = regionIds w d
      in if (case find (\<lambda>i. regionId = i) ids of None \<Rightarrow> True | Some v \<Rightarrow> v = [])
         then setAttribute (controlElement w) ''aria-controls'' (join_sp (ids @ [regionId])) d
         else d)"

text \<open>\<open>randomString\<close> is imported from a module outside this component; the document
  state carries the strings it returns, one per call.\<close>

definition randomString :: "dom \<Rightarrow> string \<times> dom" where
  "randomString d = (random_source d (random_drawn d), d\<lparr>random_drawn := Suc (random_drawn d)\<rparr>)"

definition addRegionElement :: "collapsible \<Rightarrow> node \<Rightarrow> dom \<Rightarrow> dom" where
  "addRegionElement w region d =
     (let d1 = (if \<not> hasAttribute d region ''id''
                then (case randomString d of
                        (r, d') \<Rightarrow> setAttribute region ''id'' (''region-'' @ r) d')
                else d);
          d2 = classList_add region COLLAPSIBLE_REGION_CLASS d1;
          d3 = setAttribute region ''role'' ''region'' d2;
          d4 = (if isExpanded w d3 then removeAttribute region ''hidden'' d3
                else setAttribute region ''hidden'' [] d3)
      in addRegionId w (id_prop d4 region) d4)"

text \<open>\<open>removeRegionElement\<close>: the argument may be null; \<open>region && region.id\<close>
  holds of an element whose id is not empty.\<close>

definition removeRegionElement :: "collapsible \<Rightarrow> node option \<Rightarrow> dom \<Rightarrow> dom" where
  "removeRegionElement w region d =
     (case region of
        None \<Rightarrow> d
      | Some r \<Rightarrow>
          if id_prop d r \<noteq> []
          then (let ids = filter (\<lambda>i. i = id_prop d r) (regionIds w d)
                in setAttribute (controlElement w) ''aria-controls'' (join_sp ids) d)
          else d)"

definition removeListeners :: "collapsible \<Rightarrow> dom \<Rightarrow> dom" where
  "removeListeners w d =
     removeEventListener (controlElement w) ''click''
       (removeEventListener (controlElement w) ''keydown'' d)"

definition addListeners :: "collapsible \<Rightarrow> dom \<Rightarrow> dom" where
  "addListeners w d =
     addEventListener (controlElement w) ''click''
       (addEventListener (controlElement w) ''keydown'' d)"

subsection \<open>Initialisation\<close>

text \<open>\<open>initControl\<close>: \<open>find_control\<close> is the value of \<open>controlElement_\<close> after
  its first two statements, null when no control element is found.\<close>

definition find_control :: "dom \<Rightarrow> node \<Rightarrow> node option" where
  "find_control d root =
     (case querySelector_class d root COLLAPSIBLE_CONTROL_CLASS of
        Some n \<Rightarrow> Some n
      | None \<Rightarrow> if classList_contains d root COLLAPSIBLE_CONTROL_CLASS
                then Some root else None)"

definition initControl :: "node \<Rightarrow> dom \<Rightarrow> (js_error + node) \<times> dom" where
  "initControl root d =
     (case find_control d root of
        None \<Rightarrow> (Inl MissingControlError, d)
      | Some c \<Rightarrow>
          (let d1 = (if \<not> hasAttribute d c ''aria-expanded''
                     then setAttribute c ''aria-expanded'' ''false'' d else d);
               d2 = (if toLowerCase (nodeName (element_of d1 c)) \<noteq> ''button''
                     then setAttribute c ''role'' ''button'' d1 else d1);
               d3 = (if \<not> hasAttribute d2 c ''tabindex''
                     then setAttribute c ''tabindex'' ''0'' d2 else d2)
           in (Inr c, d3)))"

text \<open>The sibling scan of \<open>initRegions\<close>, over the chain of following siblings.\<close>

fun scan_siblings :: "dom \<Rightarrow> node list \<Rightarrow> node list" where
  "scan_siblings d [] = []"
| "scan_siblings d (r # rs) =
     (if classList_contains d r COLLAPSIBLE_REGION_CLASS then r # scan_siblings d rs
      else if classList_contains d r JS_COLLAPSIBLE then []
      else scan_siblings d rs)"

text \<open>\<open>initRegions\<close>: \<open>discover_regions\<close> is the value of its variable \<open>regions\<close>
  when the final \<open>forEach\<close> starts.\<close>

definition discover_regions :: "collapsible \<Rightarrow> dom \<Rightarrow> js_error + node list" where
  "discover_regions w d =
     (if \<not> hasAttribute d (controlElement w) ''aria-controls''
      then Inr (scan_siblings d (following_siblings (trees d) (element w)))
      else regionElements w d)"

definition initRegions :: "collapsible \<Rightarrow> dom \<Rightarrow> (js_error + unit) \<times> dom" where
  "initRegions w d =
     (case discover_regions w d of
        Inl e \<Rightarrow> (Inl e, d)
      | Inr regions \<Rightarrow> (Inr (), fold (addRegionElement w) regions d))"

text \<open>The constructor stores the root element and runs \<open>init\<close>; an exception of
  \<open>init\<close> leaves no component.\<close>

definition init :: "node \<Rightarrow> dom \<Rightarrow> (js_error + collapsible) \<times> dom" where
  "init root d =
     (case initControl root d of
        (Inl e, d1) \<Rightarrow> (Inl e, d1)
      | (Inr c, d1) \<Rightarrow>
          (let w = \<lparr>element = root, controlElement = c\<rparr>
           in case initRegions w d1 of
                (Inl e, d2) \<Rightarrow> (Inl e, d2)
              | (Inr u, d2) \<Rightarrow> (Inr w, addListeners w (removeListeners w d2))))"

section \<open>Example documents\<close>

definition mk_element :: "string \<Rightarrow> (string \<times> string) list \<Rightarrow> string list \<Rightarrow> html_element" where
  "mk_element name as cs =
     \<lparr>nodeName = name, attributes = map_of as, classList = cs,
      type_prop = None, disabled_prop = False, href_prop = []\<rparr>"

text \<open>The example documents hold every element in the document tree and are not in
  quirks mode. Their selectors are plain identifiers, empty or start with a digit, so
  that the engine for the other selector texts is never asked; it is set to reject
  them.\<close>

definition mk_dom :: "dtree \<Rightarrow> (node \<Rightarrow> html_element) \<Rightarrow> dom" where
  "mk_dom t f =
     \<lparr>document = t, element_of = f, calls = [], listeners = [],
      random_source = (\<lambda>n. replicate (Suc n) CHR ''x''), random_drawn = 0,
      fragments = [], quirks_mode = False,
      other_selectors = (\<lambda>t f q. Invalid_selector)\<rparr>"

text \<open>
  A body (0) holding a collapsible root (1) with its control (2), and two further
  elements (3, 4) with the ids \<open>a\<close> and \<open>b\<close>. The argument is the attribute list of
  the control.
\<close>

definition page :: "(string \<times> string) list \<Rightarrow> dom" where
  "page control_attrs =
     mk_dom (Elem 0 [Elem 1 [Elem 2 []], Elem 3 [], Elem 4 []])
       (\<lambda>n. if n = 1 then mk_element ''DIV'' [] [''mdlext-js-collapsible'']
             else if n = 2 then mk_element ''DIV'' control_attrs [''mdlext-collapsible-control'']
             else if n = 3 then mk_element ''DIV'' [(''id'', ''a'')] [''mdlext-collapsible-region'']
             else if n = 4 then mk_element ''DIV'' [(''id'', ''b'')] [''mdlext-collapsible-region'']
             else mk_element ''BODY'' [] [])"

text \<open>The same page with a control without attributes; the argument is the attribute
  list of element 3.\<close>

definition region_page :: "(string \<times> string) list \<Rightarrow> dom" where
  "region_page region_attrs =
     mk_dom (Elem 0 [Elem 1 [Elem 2 []], Elem 3 [], Elem 4 []])
       (\<lambda>n. if n = 1 then mk_element ''DIV'' [] [''mdlext-js-collapsible'']
             else if n = 2 then mk_element ''DIV'' [] [''mdlext-collapsible-control'']
             else if n = 3 then mk_element ''DIV'' region_attrs [''mdlext-collapsible-region'']
             else if n = 4 then mk_element ''DIV'' [(''id'', ''b'')] [''mdlext-collapsible-region'']
             else mk_element ''BODY'' [] [])"

text \<open>The same page again; the arguments are the attribute lists of the control and
  of element 3.\<close>

definition page_with :: "(string \<times> string) list \<Rightarrow> (string \<times> string) list \<Rightarrow> dom" where
  "page_with control_attrs region_attrs =
     mk_dom (Elem 0 [Elem 1 [Elem 2 []], Elem 3 [], Elem 4 []])
       (\<lambda>n. if n = 1 then mk_element ''DIV'' [] [''mdlext-js-collapsible'']
             else if n = 2 then mk_element ''DIV'' control_attrs [''mdlext-collapsible-control'']
             else if n = 3 then mk_element ''DIV'' region_attrs [''mdlext-collapsible-region'']
             else if n = 4 then mk_element ''DIV'' [(''id'', ''b'')] [''mdlext-collapsible-region'']
             else mk_element ''BODY'' [] [])"

definition widget :: collapsible where
  "widget = \<lparr>element = 1, controlElement = 2\<rparr>"

section \<open>Effects of the attribute writes\<close>

lemma getAttribute_setAttribute:
  "getAttribute (setAttribute n a v d) m b = (if m = n \<and> b = a then Some v else getAttribute d m b)"
  by (simp add: getAttribute_def setAttribute_def update_attributes_def)

lemma getAttribute_removeAttribute:
  "getAttribute (removeAttribute n a d) m b = (if m = n \<and> b = a then None else getAttribute d m b)"
  by (simp add: getAttribute_def removeAttribute_def update_attributes_def)

lemma document_setAttribute: "document (setAttribute n a v d) = document d"
  by (simp add: setAttribute_def update_attributes_def)

lemma document_removeAttribute: "document (removeAttribute n a d) = document d"
  by (simp add: removeAttribute_def update_attributes_def)

lemma calls_setAttribute: "calls (setAttribute n a v d) = calls d @ [SetAttribute n a v]"
  by (simp add: setAttribute_def update_attributes_def)

lemma calls_removeAttribute: "calls (removeAttribute n a d) = calls d @ [RemoveAttribute n a]"
  by (simp add: removeAttribute_def update_attributes_def)

lemma hide_from_fold:
  "k \<le> length regions \<Longrightarrow>
   hide_from regions k d = fold (\<lambda>r. setAttribute r ''hidden'' []) (rev (take k regions)) d"
proof (induction k arbitrary: d)
  case 0
  then show ?case by simp
next
  case (Suc k)
  then have "take (Suc k) regions = take k regions @ [regions ! k]"
    by (simp add: take_Suc_conv_app_nth)
  with Suc show ?case by simp
qed

lemma calls_fold_set:
  "calls (fold (\<lambda>r. setAttribute r a v) rs d) = calls d @ map (\<lambda>r. SetAttribute r a v) rs"
  by (induction rs arbitrary: d) (simp_all add: calls_setAttribute)

lemma calls_fold_remove:
  "calls (fold (\<lambda>r. removeAttribute r a) rs d) = calls d @ map (\<lambda>r. RemoveAttribute r a) rs"
  by (induction rs arbitrary: d) (simp_all add: calls_removeAttribute)

lemma getAttribute_fold_set:
  "getAttribute (fold (\<lambda>r. setAttribute r a v) rs d) m b =
     (if m \<in> set rs \<and> b = a then Some v else getAttribute d m b)"
  by (induction rs arbitrary: d) (auto simp add: getAttribute_setAttribute)

lemma getAttribute_fold_remove:
  "getAttribute (fold (\<lambda>r. removeAttribute r a) rs d) m b =
     (if m \<in> set rs \<and> b = a then None else getAttribute d m b)"
  by (induction rs arbitrary: d) (auto simp add: getAttribute_removeAttribute)

lemma document_fold_set: "document (fold (\<lambda>r. setAttribute r a v) rs d) = document d"
  by (induction rs arbitrary: d) (simp_all add: document_setAttribute)

lemma document_fold_remove: "document (fold (\<lambda>r. removeAttribute r a) rs d) = document d"
  by (induction rs arbitrary: d) (simp_all add: document_removeAttribute)

lemma element_of_setAttribute:
  "nodeName (element_of (setAttribute n a v d) m) = nodeName (element_of d m) \<and>
   classList (element_of (setAttribute n a v d) m) = classList (element_of d m) \<and>
   listeners (setAttribute n a v d) = listeners d \<and>
   other_selectors (setAttribute n a v d) = other_selectors d \<and>
   fragments (setAttribute n a v d) = fragments d \<and>
   quirks_mode (setAttribute n a v d) = quirks_mode d"
  by (simp add: setAttribute_def update_attributes_def)

lemma element_of_removeAttribute:
  "nodeName (element_of (removeAttribute n a d) m) = nodeName (element_of d m) \<and>
   classList (element_of (removeAttribute n a d) m) = classList (element_of d m) \<and>
   listeners (removeAttribute n a d) = listeners d \<and>
   other_selectors (removeAttribute n a d) = other_selectors d \<and>
   fragments (removeAttribute n a d) = fragments d \<and>
   quirks_mode (removeAttribute n a d) = quirks_mode d"
  by (simp add: removeAttribute_def update_attributes_def)

lemma element_of_fold_set:
  "nodeName (element_of (fold (\<lambda>r. setAttribute r a v) rs d) m) = nodeName (element_of d m) \<and>
   classList (element_of (fold (\<lambda>r. setAttribute r a v) rs d) m) = classList (element_of d m) \<and>
   listeners (fold (\<lambda>r. setAttribute r a v) rs d) = listeners d \<and>
   other_selectors (fold (\<lambda>r. setAttribute r a v) rs d) = other_selectors d \<and>
   fragments (fold (\<lambda>r. setAttribute r a v) rs d) = fragments d \<and>
   quirks_mode (fold (\<lambda>r. setAttribute r a v) rs d) = quirks_mode d"
  by (induction rs arbitrary: d) (simp_all add: element_of_setAttribute)

lemma element_of_fold_remove:
  "nodeName (element_of (fold (\<lambda>r. removeAttribute r a) rs d) m) = nodeName (element_of d m) \<and>
   classList (element_of (fold (\<lambda>r. removeAttribute r a) rs d) m) = classList (element_of d m) \<and>
   listeners (fold (\<lambda>r. removeAttribute r a) rs d) = listeners d \<and>
   other_selectors (fold (\<lambda>r. removeAttribute r a) rs d) = other_selectors d \<and>
   fragments (fold (\<lambda>r. removeAttribute r a) rs d) = fragments d \<and>
   quirks_mode (fold (\<lambda>r. removeAttribute r a) rs d) = quirks_mode d"
  by (induction rs arbitrary: d) (simp_all add: element_of_removeAttribute)

text \<open>\<open>collapse\<close> and \<open>expand\<close> as one write on the control followed by a fold over
  the regions that the getter returns after that write.\<close>

lemma collapse_result:
  "collapse w d =
     (case regionElements w (setAttribute (controlElement w) ''aria-expanded'' ''false'' d) of
        Inl e \<Rightarrow> (Inl e, setAttribute (controlElement w) ''aria-expanded'' ''false'' d)
      | Inr regions \<Rightarrow>
          (Inr (), fold (\<lambda>r. setAttribute r ''hidden'' []) (rev regions)
                     (setAttribute (controlElement w) ''aria-expanded'' ''false'' d)))"
  by (simp add: collapse_def Let_def hide_from_fold split: sum.split)

lemma expand_result:
  "expand w d =
     (case regionElements w (setAttribute (controlElement w) ''aria-expanded'' ''true'' d) of
        Inl e \<Rightarrow> (Inl e, setAttribute (controlElement w) ''aria-expanded'' ''true'' d)
      | Inr regions \<Rightarrow>
          (Inr (), fold (\<lambda>r. removeAttribute r ''hidden'') regions
                     (setAttribute (controlElement w) ''aria-expanded'' ''true'' d)))"
  by (simp add: expand_def Let_def split: sum.split)

lemma lower_true: "toLowerCase ''true'' = ''true''"
  by code_simp

lemma lower_false: "toLowerCase ''false'' \<noteq> ''true''"
  by code_simp

lemma expanded_attr_collapse:
  "getAttribute (snd (collapse w d)) (controlElement w) ''aria-expanded'' = Some ''false''"
  by (simp add: collapse_result getAttribute_fold_set getAttribute_setAttribute split: sum.split)

lemma expanded_attr_expand:
  "getAttribute (snd (expand w d)) (controlElement w) ''aria-expanded'' = Some ''true''"
  by (simp add: expand_result getAttribute_fold_remove getAttribute_setAttribute split: sum.split)

section \<open>The order of the writes of collapse and expand\<close>

text \<open>When the getter returns, \<open>collapse\<close> hides the regions from the last to the
  first and \<open>expand\<close> shows them from the first to the last, and these are all the
  writes of the two methods.\<close>

lemma collapse_writes:
  assumes "regionElements w (setAttribute (controlElement w) ''aria-expanded'' ''false'' d) =
           Inr regions"
  shows "fst (collapse w d) = Inr () \<and>
    calls (snd (collapse w d)) =
      calls d @ SetAttribute (controlElement w) ''aria-expanded'' ''false'' #
                map (\<lambda>r. SetAttribute r ''hidden'' []) (rev regions) \<and>
    (\<forall>r \<in> set regions. getAttribute (snd (collapse w d)) r ''hidden'' = Some [])"
  using assms
  by (simp add: collapse_result calls_fold_set getAttribute_fold_set calls_setAttribute)

lemma expand_writes:
  assumes "regionElements w (setAttribute (controlElement w) ''aria-expanded'' ''true'' d) =
           Inr regions"
  shows "fst (expand w d) = Inr () \<and>
    calls (snd (expand w d)) =
      calls d @ SetAttribute (controlElement w) ''aria-expanded'' ''true'' #
                map (\<lambda>r. RemoveAttribute r ''hidden'') regions \<and>
    (\<forall>r \<in> set regions. getAttribute (snd (expand w d)) r ''hidden'' = None)"
  using assms
  by (simp add: expand_result calls_fold_remove getAttribute_fold_remove calls_setAttribute)

text \<open>
  C7. \<open>collapse\<close> should set \<open>aria-expanded\<close> to \<open>false\<close> and hide every
  associated region, the last of the list first; \<open>expand\<close> should set it to \<open>true\<close>
  and show every associated region in list order. With the id list \<open>a 1\<close>, where the
  element \<open>a\<close> (element 3) exists, both methods write \<open>aria-expanded\<close> and then throw
  in the getter, at the selector \<open>#1\<close>: that write is their only one, \<open>collapse\<close>
  leaves the region \<open>a\<close> without \<open>hidden\<close> and \<open>expand\<close> leaves it hidden.
\<close>

theorem collapse_expand_throw_before_regions:
  "regionIds widget (page [(''aria-controls'', ''a 1'')]) = [''a'', ''1''] \<and>
   getAttribute (page [(''aria-controls'', ''a 1'')]) 3 ''id'' = Some ''a'' \<and>
   fst (collapse widget (page [(''aria-controls'', ''a 1'')])) = Inl SyntaxError \<and>
   calls (snd (collapse widget (page [(''aria-controls'', ''a 1'')]))) =
     [SetAttribute 2 ''aria-expanded'' ''false''] \<and>
   getAttribute (snd (collapse widget (page [(''aria-controls'', ''a 1'')]))) 3 ''hidden'' = None \<and>
   getAttribute (page_with [(''aria-controls'', ''a 1'')] [(''id'', ''a''), (''hidden'', [])])
     3 ''id'' = Some ''a'' \<and>
   fst (expand widget
     (page_with [(''aria-controls'', ''a 1'')] [(''id'', ''a''), (''hidden'', [])])) =
     Inl SyntaxError \<and>
   calls (snd (expand widget
     (page_with [(''aria-controls'', ''a 1'')] [(''id'', ''a''), (''hidden'', [])]))) =
     [SetAttribute 2 ''aria-expanded'' ''true''] \<and>
   getAttribute (snd (expand widget
     (page_with [(''aria-controls'', ''a 1'')] [(''id'', ''a''), (''hidden'', [])])))
     3 ''hidden'' = Some []"
  by code_simp

section \<open>The expanded state and the hidden regions\<close>

text \<open>When the getter returns, every region it returned is hidden after \<open>collapse\<close>
  and shown after \<open>expand\<close>, in step with the expanded state of the control.\<close>

lemma hidden_after_collapse:
  assumes "regionElements w (setAttribute (controlElement w) ''aria-expanded'' ''false'' d) =
           Inr regions" and "r \<in> set regions"
  shows "hasAttribute (snd (collapse w d)) r ''hidden'' \<and> \<not> isExpanded w (snd (collapse w d))"
proof -
  have "\<not> isExpanded w (snd (collapse w d))"
    by (simp add: isExpanded_def expanded_attr_collapse lower_false)
  moreover have "getAttribute (snd (collapse w d)) r ''hidden'' = Some []"
    using collapse_writes [OF assms(1)] assms(2) by simp
  ultimately show ?thesis
    by (simp add: hasAttribute_def getAttribute_def)
qed

lemma hidden_after_expand:
  assumes "regionElements w (setAttribute (controlElement w) ''aria-expanded'' ''true'' d) =
           Inr regions" and "r \<in> set regions"
  shows "\<not> hasAttribute (snd (expand w d)) r ''hidden'' \<and> isExpanded w (snd (expand w d))"
proof -
  have "isExpanded w (snd (expand w d))"
    by (simp add: isExpanded_def expanded_attr_expand lower_true)
  moreover have "getAttribute (snd (expand w d)) r ''hidden'' = None"
    using expand_writes [OF assms(1)] assms(2) by simp
  ultimately show ?thesis
    by (simp add: hasAttribute_def getAttribute_def)
qed

text \<open>
  C4. After any sequence of \<open>expand\<close>, \<open>collapse\<close> and \<open>toggle\<close> calls that follows
  the initialisation, \<open>aria-expanded\<close> should be what the last call intends and every
  region of the id list should be hidden exactly when the control is collapsed. On a
  page whose control has no \<open>aria-controls\<close> and whose sibling regions have the ids
  \<open>1\<close> and \<open>b\<close>, \<open>init\<close> returns and writes the id list \<open>1 b\<close>, hiding both
  regions. The call of \<open>expand\<close> that follows sets \<open>aria-expanded\<close> to \<open>true\<close> and
  throws in the getter, at the selector \<open>#1\<close>: the region \<open>b\<close> (element 4) of the
  list stays hidden while the control is expanded.
\<close>

theorem expand_after_init_leaves_region_hidden:
  "fst (init 1 (region_page [(''id'', ''1'')])) = Inr widget \<and>
   getAttribute (snd (init 1 (region_page [(''id'', ''1'')]))) 2 ''aria-controls'' =
     Some ''1 b'' \<and>
   getAttribute (snd (init 1 (region_page [(''id'', ''1'')]))) 4 ''id'' = Some ''b'' \<and>
   fst (expand widget (snd (init 1 (region_page [(''id'', ''1'')])))) = Inl SyntaxError \<and>
   getAttribute (snd (expand widget (snd (init 1 (region_page [(''id'', ''1'')])))))
     2 ''aria-expanded'' = Some ''true'' \<and>
   isExpanded widget (snd (expand widget (snd (init 1 (region_page [(''id'', ''1'')]))))) \<and>
   getAttribute (snd (expand widget (snd (init 1 (region_page [(''id'', ''1'')])))))
     4 ''hidden'' = Some []"
  by code_simp

section \<open>What expand and collapse leave unchanged\<close>

text \<open>
  C10. \<open>expand\<close> and \<open>collapse\<close>, whether they return or throw, leave the
  \<open>aria-controls\<close> attribute of the control, the trees of the document and of the
  fragments, the listeners and the tag name and class list of every element as they
  were. Of the attributes, only
  \<open>aria-expanded\<close> of the control and \<open>hidden\<close> of the regions that the getter
  returned to the method can differ afterwards; the method calls the getter after its
  write of \<open>aria-expanded\<close>. This holds for every answer of the selector engine.
\<close>

theorem expand_collapse_frame:
  "getAttribute (snd (expand w d)) (controlElement w) ''aria-controls'' =
     getAttribute d (controlElement w) ''aria-controls'' \<and>
   getAttribute (snd (collapse w d)) (controlElement w) ''aria-controls'' =
     getAttribute d (controlElement w) ''aria-controls'' \<and>
   document (snd (expand w d)) = document d \<and>
   document (snd (collapse w d)) = document d \<and>
   fragments (snd (expand w d)) = fragments d \<and>
   fragments (snd (collapse w d)) = fragments d \<and>
   listeners (snd (expand w d)) = listeners d \<and>
   listeners (snd (collapse w d)) = listeners d \<and>
   nodeName (element_of (snd (expand w d)) n) = nodeName (element_of d n) \<and>
   nodeName (element_of (snd (collapse w d)) n) = nodeName (element_of d n) \<and>
   classList (element_of (snd (expand w d)) n) = classList (element_of d n) \<and>
   classList (element_of (snd (collapse w d)) n) = classList (element_of d n) \<and>
   (\<not> (n = controlElement w \<and> a = ''aria-expanded'') \<and>
    \<not> (a = ''hidden'' \<and>
       n \<in> (case regionElements w
                   (setAttribute (controlElement w) ''aria-expanded'' ''true'' d) of
               Inl e \<Rightarrow> {} | Inr regions \<Rightarrow> set regions))
    \<longrightarrow> getAttribute (snd (expand w d)) n a = getAttribute d n a) \<and>
   (\<not> (n = controlElement w \<and> a = ''aria-expanded'') \<and>
    \<not> (a = ''hidden'' \<and>
       n \<in> (case regionElements w
                   (setAttribute (controlElement w) ''aria-expanded'' ''false'' d) of
               Inl e \<Rightarrow> {} | Inr regions \<Rightarrow> set regions))
    \<longrightarrow> getAttribute (snd (collapse w d)) n a = getAttribute d n a)"
  by (auto simp add: collapse_result expand_result getAttribute_fold_set getAttribute_fold_remove
      getAttribute_setAttribute document_fold_set document_fold_remove document_setAttribute
      element_of_fold_set element_of_fold_remove element_of_setAttribute
      split: sum.split)

theorem expand_collapse_frame_witness:
  "regionElements widget
     (setAttribute 2 ''aria-expanded'' ''false'' (page [(''aria-controls'', ''a b'')])) =
     Inr [3, 4] \<and>
   getAttribute (snd (collapse widget (page [(''aria-controls'', ''a b'')]))) 2 ''aria-controls'' =
     Some ''a b'' \<and>
   getAttribute (snd (collapse widget (page [(''aria-controls'', ''a b'')]))) 3 ''id'' = Some ''a'' \<and>
   getAttribute (snd (expand widget (page [(''aria-controls'', ''a b'')]))) 4 ''id'' = Some ''b''"
proof -
  let ?p = "page [(''aria-controls'', ''a b'')]"
  have ctl: "controlElement widget = 2"
    by (simp add: widget_def)
  have regions:
    "regionElements widget (setAttribute 2 ''aria-expanded'' ''false'' ?p) = Inr [3, 4]"
    by code_simp
  have before: "getAttribute ?p 2 ''aria-controls'' = Some ''a b''"
    "getAttribute ?p 3 ''id'' = Some ''a''" "getAttribute ?p 4 ''id'' = Some ''b''"
    by code_simp+
  from expand_collapse_frame [of widget ?p 3 "''id''"] before ctl
  have "getAttribute (snd (collapse widget ?p)) 2 ''aria-controls'' = Some ''a b'' \<and>
        getAttribute (snd (collapse widget ?p)) 3 ''id'' = Some ''a''"
    by simp
  moreover from expand_collapse_frame [of widget ?p 4 "''id''"] before
  have "getAttribute (snd (expand widget ?p)) 4 ''id'' = Some ''b''"
    by simp
  ultimately show ?thesis
    using regions by simp
qed

section \<open>Initialisation\<close>

subsection \<open>Attributes that adding a region leaves alone\<close>

lemma getAttribute_classList_add: "getAttribute (classList_add n c d) m a = getAttribute d m a"
  by (simp add: getAttribute_def classList_add_def)

lemma getAttribute_random_drawn: "getAttribute (d\<lparr>random_drawn := k\<rparr>) m a = getAttribute d m a"
  by (simp add: getAttribute_def)

lemma getAttribute_addRegionId:
  "a \<noteq> ''aria-controls'' \<Longrightarrow> getAttribute (addRegionId w i d) n a = getAttribute d n a"
  by (simp add: addRegionId_def Let_def getAttribute_setAttribute)

lemma getAttribute_addRegionElement:
  assumes "a \<noteq> ''aria-controls''" and "n \<noteq> region \<or> (a \<noteq> ''id'' \<and> a \<noteq> ''role'' \<and> a \<noteq> ''hidden'')"
  shows "getAttribute (addRegionElement w region d) n a = getAttribute d n a"
  using assms
  by (auto simp add: addRegionElement_def Let_def randomString_def getAttribute_addRegionId
      getAttribute_setAttribute getAttribute_removeAttribute getAttribute_classList_add
      getAttribute_random_drawn)

lemma getAttribute_fold_addRegionElement:
  assumes "a \<noteq> ''aria-controls''" and "n \<notin> set regions \<or> (a \<noteq> ''id'' \<and> a \<noteq> ''role'' \<and> a \<noteq> ''hidden'')"
  shows "getAttribute (fold (addRegionElement w) regions d) n a = getAttribute d n a"
  using assms
  by (induction regions arbitrary: d) (auto simp add: getAttribute_addRegionElement)

lemma getAttribute_listeners:
  "getAttribute (addListeners w (removeListeners w d)) n a = getAttribute d n a"
  by (simp add: getAttribute_def addListeners_def removeListeners_def addEventListener_def
      removeEventListener_def)

subsection \<open>The control element and the discovery of the regions\<close>

lemma querySelector_id_error: "querySelector_id d i = Inl e \<Longrightarrow> e = SyntaxError"
  by (auto simp add: querySelector_id_def split: if_splits list.splits selection.splits)

lemma query_ids_error: "query_ids d ids = Inl e \<Longrightarrow> e = SyntaxError"
  by (induction ids arbitrary: e) (auto split: sum.splits dest: querySelector_id_error)

lemma discover_regions_error: "discover_regions w d = Inl e \<Longrightarrow> e = SyntaxError"
  by (auto simp add: discover_regions_def regionElements_def split: if_splits sum.splits
      dest: query_ids_error)

lemma find_SomeD: "find P xs = Some x \<Longrightarrow> x \<in> set xs \<and> P x"
  by (auto simp add: find_Some_iff)

lemma find_control_None:
  "find_control d root = None \<longleftrightarrow>
     \<not> classList_contains d root COLLAPSIBLE_CONTROL_CLASS \<and>
     (\<forall>n \<in> set (descendants (trees d) root). \<not> matches_class d n COLLAPSIBLE_CONTROL_CLASS)"
proof (cases "querySelector_class d root COLLAPSIBLE_CONTROL_CLASS")
  case None
  then have "\<forall>n \<in> set (descendants (trees d) root). \<not> matches_class d n COLLAPSIBLE_CONTROL_CLASS"
    by (simp add: querySelector_class_def find_None_iff)
  with None show ?thesis
    by (simp add: find_control_def)
next
  case (Some c)
  then have "c \<in> set (descendants (trees d) root) \<and> matches_class d c COLLAPSIBLE_CONTROL_CLASS"
    unfolding querySelector_class_def by (rule find_SomeD)
  with Some show ?thesis
    by (auto simp add: find_control_def)
qed

lemma initControl_None: "find_control d root = None \<Longrightarrow> initControl root d = (Inl MissingControlError, d)"
  by (simp add: initControl_def)

lemma initControl_Some:
  "find_control d root = Some c \<Longrightarrow>
   initControl root d =
     (Inr c,
      let d1 = (if \<not> hasAttribute d c ''aria-expanded''
                then setAttribute c ''aria-expanded'' ''false'' d else d);
          d2 = (if toLowerCase (nodeName (element_of d1 c)) \<noteq> ''button''
                then setAttribute c ''role'' ''button'' d1 else d1)
      in if \<not> hasAttribute d2 c ''tabindex'' then setAttribute c ''tabindex'' ''0'' d2 else d2)"
  by (simp add: initControl_def Let_def)

lemma initControl_missing:
  "fst (initControl root d) = Inl MissingControlError \<longleftrightarrow> find_control d root = None"
  by (cases "find_control d root") (simp_all add: initControl_None initControl_Some)

lemma initControl_error: "fst (initControl root d) = Inl e \<Longrightarrow> e = MissingControlError"
  by (cases "find_control d root") (simp_all add: initControl_None initControl_Some)

lemma initControl_Inr: "fst (initControl root d) = Inr c \<longleftrightarrow> find_control d root = Some c"
  by (cases "find_control d root") (simp_all add: initControl_None initControl_Some)

lemma find_control_root:
  assumes "classList_contains d root COLLAPSIBLE_CONTROL_CLASS"
    and "\<forall>n \<in> set (descendants (trees d) root). \<not> matches_class d n COLLAPSIBLE_CONTROL_CLASS"
  shows "find_control d root = Some root"
proof -
  from assms(2) have "querySelector_class d root COLLAPSIBLE_CONTROL_CLASS = None"
    by (simp add: querySelector_class_def find_None_iff)
  with assms(1) show ?thesis
    by (simp add: find_control_def)
qed

lemma hasAttribute_getAttribute: "hasAttribute d n a = (getAttribute d n a \<noteq> None)"
  by (simp add: hasAttribute_def getAttribute_def)

lemma getAttribute_cond_set:
  "getAttribute (if b then setAttribute c x v d else d) n a =
     (if b \<and> n = c \<and> a = x then Some v else getAttribute d n a)"
  by (simp add: getAttribute_setAttribute)

lemma nodeName_cond_set:
  "nodeName (element_of (if b then setAttribute c x v d else d) n) = nodeName (element_of d n)"
  by (simp add: element_of_setAttribute)

lemma initControl_attributes:
  assumes "find_control d root = Some c"
  shows "getAttribute (snd (initControl root d)) n a =
     (if n = c \<and> a = ''aria-expanded'' \<and> getAttribute d c ''aria-expanded'' = None
      then Some ''false''
      else if n = c \<and> a = ''role'' \<and> toLowerCase (nodeName (element_of d c)) \<noteq> ''button''
      then Some ''button''
      else if n = c \<and> a = ''tabindex'' \<and> getAttribute d c ''tabindex'' = None
      then Some ''0''
      else getAttribute d n a)"
proof -
  define d1 where "d1 = (if \<not> hasAttribute d c ''aria-expanded''
                then setAttribute c ''aria-expanded'' ''false'' d else d)"
  define d2 where "d2 = (if toLowerCase (nodeName (element_of d1 c)) \<noteq> ''button''
                then setAttribute c ''role'' ''button'' d1 else d1)"
  define d3 where "d3 = (if \<not> hasAttribute d2 c ''tabindex''
                then setAttribute c ''tabindex'' ''0'' d2 else d2)"
  have res: "snd (initControl root d) = d3"
    by (simp add: initControl_Some [OF assms] d1_def d2_def d3_def Let_def)
  have a1: "getAttribute d1 n a =
      (if n = c \<and> a = ''aria-expanded'' \<and> getAttribute d c ''aria-expanded'' = None
       then Some ''false'' else getAttribute d n a)" for n a
    unfolding d1_def getAttribute_cond_set by (auto simp add: hasAttribute_getAttribute)
  have n1: "nodeName (element_of d1 c) = nodeName (element_of d c)"
    unfolding d1_def by (rule nodeName_cond_set)
  have a2: "getAttribute d2 n a =
      (if n = c \<and> a = ''role'' \<and> toLowerCase (nodeName (element_of d c)) \<noteq> ''button''
       then Some ''button'' else getAttribute d1 n a)" for n a
    unfolding d2_def getAttribute_cond_set n1 by auto
  have t2: "getAttribute d2 c ''tabindex'' = getAttribute d c ''tabindex''"
    by (simp add: a2 a1)
  have a3: "getAttribute d3 n a =
      (if n = c \<and> a = ''tabindex'' \<and> getAttribute d c ''tabindex'' = None
       then Some ''0'' else getAttribute d2 n a)" for n a
    unfolding d3_def getAttribute_cond_set hasAttribute_getAttribute t2 by auto
  show ?thesis
    unfolding res a3 a2 a1 by auto
qed

lemma initControl_frame:
  "document (snd (initControl root d)) = document d \<and>
   classList (element_of (snd (initControl root d)) n) = classList (element_of d n) \<and>
   nodeName (element_of (snd (initControl root d)) n) = nodeName (element_of d n)"
proof (cases "find_control d root")
  case None
  then show ?thesis
    by (simp add: initControl_None)
next
  case (Some c)
  show ?thesis
    unfolding initControl_Some [OF Some]
    by (simp add: Let_def document_setAttribute element_of_setAttribute)
qed

text \<open>\<open>init\<close> in one piece: the regions are discovered in the document that
  \<open>initControl\<close> leaves.\<close>

lemma init_result:
  "init root d =
     (case find_control d root of
        None \<Rightarrow> (Inl MissingControlError, d)
      | Some c \<Rightarrow>
          (case discover_regions \<lparr>element = root, controlElement = c\<rparr>
                  (snd (initControl root d)) of
             Inl e \<Rightarrow> (Inl e, snd (initControl root d))
           | Inr regions \<Rightarrow>
               (Inr \<lparr>element = root, controlElement = c\<rparr>,
                addListeners \<lparr>element = root, controlElement = c\<rparr>
                  (removeListeners \<lparr>element = root, controlElement = c\<rparr>
                    (fold (addRegionElement \<lparr>element = root, controlElement = c\<rparr>) regions
                      (snd (initControl root d)))))))"
proof (cases "find_control d root")
  case None
  then show ?thesis
    by (simp add: init_def initControl_None)
next
  case (Some c)
  obtain d1 where d1: "initControl root d = (Inr c, d1)"
    using initControl_Some [OF Some] by simp
  with Some show ?thesis
    by (simp add: init_def initRegions_def Let_def split: sum.split)
qed

lemma init_missing_control:
  "fst (init root d) = Inl MissingControlError \<longleftrightarrow>
     \<not> classList_contains d root COLLAPSIBLE_CONTROL_CLASS \<and>
     (\<forall>n \<in> set (descendants (trees d) root).
        \<not> matches_class d n COLLAPSIBLE_CONTROL_CLASS)"
proof (cases "find_control d root")
  case None
  then show ?thesis
    using find_control_None [of d root] by (simp add: init_result)
next
  case (Some c)
  then have "fst (init root d) \<noteq> Inl MissingControlError"
    by (auto simp add: init_result split: sum.splits dest: discover_regions_error)
  with Some show ?thesis
    using find_control_None [of d root] by simp
qed

subsection \<open>When construction fails\<close>

text \<open>
  C9. Construction should fail exactly when neither the root nor a descendant of it
  carries the control class, and succeed with the root as control when only the root
  carries it. The error of the missing control is raised exactly then (lemma
  \<open>init_missing_control\<close>). But on a root that carries the class, has no
  descendant and has an empty \<open>aria-controls\<close> attribute, the control is found and
  construction still fails: the discovery of the regions throws a SyntaxError at the
  selector \<open>#\<close>.
\<close>

theorem construction_throws_with_control_present:
  "classList_contains (page [(''aria-controls'', [])]) 2 COLLAPSIBLE_CONTROL_CLASS \<and>
   descendants (trees (page [(''aria-controls'', [])])) 2 = [] \<and>
   fst (initControl 2 (page [(''aria-controls'', [])])) = Inr 2 \<and>
   fst (init 2 (page [(''aria-controls'', [])])) = Inl SyntaxError"
  by code_simp

subsection \<open>The control element after initialisation\<close>

text \<open>
  C5, as stated, reads: after \<open>init\<close> the control has an \<open>aria-expanded\<close>
  attribute, has the role \<open>button\<close> unless it is a button element, and has been made
  focusable with \<open>tabindex\<close> 0 if it was not focusable. \<open>init\<close> never calls
  \<open>isFocusable\<close>: it tests whether a \<open>tabindex\<close> attribute is present. A \<open>div\<close>
  control with \<open>tabindex\<close> -1 is not focusable before \<open>init\<close> and keeps
  \<open>tabindex\<close> -1 after it. When the id list of the control names the control itself,
  the control is also initialised as a region, and its role ends as \<open>region\<close>.
\<close>

theorem init_keeps_unfocusable_tabindex_counterexample:
  "fst (init 1 (page [(''id'', ''c''), (''tabindex'', ''-1''), (''aria-controls'', ''c'')])) =
     Inr widget \<and>
   nodeName (element_of
     (page [(''id'', ''c''), (''tabindex'', ''-1''), (''aria-controls'', ''c'')]) 2) = ''DIV'' \<and>
   isFocusable (page [(''id'', ''c''), (''tabindex'', ''-1''), (''aria-controls'', ''c'')]) 2 =
     Inr False \<and>
   getAttribute
     (snd (init 1 (page [(''id'', ''c''), (''tabindex'', ''-1''), (''aria-controls'', ''c'')])))
     2 ''tabindex'' = Some ''-1'' \<and>
   isFocusable
     (snd (init 1 (page [(''id'', ''c''), (''tabindex'', ''-1''), (''aria-controls'', ''c'')])))
     2 = Inr False \<and>
   getAttribute
     (snd (init 1 (page [(''id'', ''c''), (''tabindex'', ''-1''), (''aria-controls'', ''c'')])))
     2 ''role'' = Some ''region''"
  by code_simp

text \<open>
  C5, amended. After \<open>init\<close> returns, the control has an \<open>aria-expanded\<close>
  attribute, \<open>false\<close> if it had none and its former value otherwise; it has a
  \<open>tabindex\<close> attribute, 0 if it had none and its former value otherwise; and when its
  tag name is not \<open>button\<close> and it is not itself one of the regions that \<open>init\<close>
  discovers, its role is \<open>button\<close>.
\<close>

theorem init_control_attributes:
  assumes "fst (init root d) = Inr w"
  shows
    "getAttribute (snd (init root d)) (controlElement w) ''aria-expanded'' =
       Some (case getAttribute d (controlElement w) ''aria-expanded'' of
               None \<Rightarrow> ''false'' | Some v \<Rightarrow> v) \<and>
     getAttribute (snd (init root d)) (controlElement w) ''tabindex'' =
       Some (case getAttribute d (controlElement w) ''tabindex'' of
               None \<Rightarrow> ''0'' | Some v \<Rightarrow> v) \<and>
     (toLowerCase (nodeName (element_of d (controlElement w))) \<noteq> ''button'' \<longrightarrow>
        (\<forall>regions. discover_regions w (snd (initControl root d)) = Inr regions \<longrightarrow>
           controlElement w \<notin> set regions \<longrightarrow>
           getAttribute (snd (init root d)) (controlElement w) ''role'' = Some ''button''))"
proof -
  from assms obtain c where c: "find_control d root = Some c"
    by (cases "find_control d root") (simp_all add: init_result)
  from assms c obtain regions where
    regions: "discover_regions \<lparr>element = root, controlElement = c\<rparr>
                (snd (initControl root d)) = Inr regions"
    by (cases "discover_regions \<lparr>element = root, controlElement = c\<rparr>
                 (snd (initControl root d))")
       (simp_all add: init_result)
  from assms c regions have w: "w = \<lparr>element = root, controlElement = c\<rparr>"
    by (simp add: init_result)
  have state: "snd (init root d) =
      addListeners w (removeListeners w (fold (addRegionElement w) regions (snd (initControl root d))))"
    using c regions by (simp add: init_result w)
  have ctl: "controlElement w = c"
    by (simp add: w)
  have other: "getAttribute (snd (init root d)) c a = getAttribute (snd (initControl root d)) c a"
    if "a = ''aria-expanded'' \<or> a = ''tabindex''" for a
    unfolding state getAttribute_listeners
    by (rule getAttribute_fold_addRegionElement) (use that in auto)
  have role: "getAttribute (snd (init root d)) c ''role'' =
      getAttribute (snd (initControl root d)) c ''role''" if "c \<notin> set regions"
    unfolding state getAttribute_listeners
    by (rule getAttribute_fold_addRegionElement) (use that in auto)
  show ?thesis
    using regions role
    by (auto simp add: ctl other initControl_attributes [OF c] w split: option.split)
qed

theorem init_control_attributes_witness:
  "fst (init 1 (page [])) = Inr widget \<and>
   discover_regions widget (snd (initControl 1 (page []))) = Inr [3, 4] \<and>
   getAttribute (snd (init 1 (page []))) 2 ''aria-expanded'' = Some ''false'' \<and>
   getAttribute (snd (init 1 (page []))) 2 ''tabindex'' = Some ''0'' \<and>
   getAttribute (snd (init 1 (page []))) 2 ''role'' = Some ''button''"
proof -
  have ok: "fst (init 1 (page [])) = Inr widget"
    by code_simp
  have regions: "discover_regions widget (snd (initControl 1 (page []))) = Inr [3, 4]"
    by code_simp
  have ctl: "controlElement widget = 2"
    by (simp add: widget_def)
  have before: "getAttribute (page []) 2 ''aria-expanded'' = None"
    "getAttribute (page []) 2 ''tabindex'' = None"
    by code_simp+
  have tag: "toLowerCase (nodeName (element_of (page []) 2)) \<noteq> ''button''"
    by code_simp
  from init_control_attributes [OF ok] regions ctl before tag
  have "getAttribute (snd (init 1 (page []))) 2 ''aria-expanded'' = Some ''false'' \<and>
        getAttribute (snd (init 1 (page []))) 2 ''tabindex'' = Some ''0'' \<and>
        getAttribute (snd (init 1 (page []))) 2 ''role'' = Some ''button''"
    by simp
  with ok regions show ?thesis
    by simp
qed

section \<open>Adding a region twice\<close>

subsection \<open>Splitting what was joined\<close>

lemma split_sp_word: "CHR '' '' \<notin> set w \<Longrightarrow> split_sp w = [w]"
  by (induction w) auto

lemma split_sp_word_space:
  "CHR '' '' \<notin> set w \<Longrightarrow> split_sp (w @ CHR '' '' # s) = w # split_sp s"
  by (induction w) auto

lemma split_sp_join_sp:
  "ws \<noteq> [] \<Longrightarrow> \<forall>w \<in> set ws. CHR '' '' \<notin> set w \<Longrightarrow> split_sp (join_sp ws) = ws"
  by (induction ws rule: join_sp.induct) (simp_all add: split_sp_word split_sp_word_space)

lemma split_sp_words: "w \<in> set (split_sp s) \<Longrightarrow> CHR '' '' \<notin> set w"
proof (induction s arbitrary: w)
  case Nil
  then show ?case by simp
next
  case (Cons c s)
  then show ?case
    by (cases "split_sp s") (auto split: if_splits)
qed

lemma regionIds_words: "i \<in> set (regionIds w d) \<Longrightarrow> CHR '' '' \<notin> set i"
  by (auto simp add: regionIds_def split: option.splits dest: split_sp_words)

lemma find_eq: "find (\<lambda>i. x = i) xs = (if x \<in> set xs then Some x else None)"
  by (induction xs) auto

lemma regionIds_addRegionId:
  assumes "rid \<noteq> []" and "CHR '' '' \<notin> set rid"
  shows "regionIds w (addRegionId w rid d) =
     (if rid \<in> set (regionIds w d) then regionIds w d else regionIds w d @ [rid])"
proof (cases "rid \<in> set (regionIds w d)")
  case True
  with assms(1) show ?thesis
    by (simp add: addRegionId_def find_eq)
next
  case False
  have "\<forall>i \<in> set (regionIds w d @ [rid]). CHR '' '' \<notin> set i"
    using assms(2) by (auto dest: regionIds_words)
  then have "split_sp (join_sp (regionIds w d @ [rid])) = regionIds w d @ [rid]"
    by (intro split_sp_join_sp) simp_all
  with False show ?thesis
    by (simp add: addRegionId_def find_eq regionIds_def [of w "setAttribute _ _ _ _"]
        getAttribute_setAttribute)
qed

lemma addRegionElement_steps:
  "\<exists>s. addRegionElement w region d = addRegionId w (id_prop s region) s \<and>
       getAttribute s (controlElement w) ''aria-controls'' =
         getAttribute d (controlElement w) ''aria-controls'' \<and>
       (hasAttribute d region ''id'' \<longrightarrow> (\<forall>n. getAttribute s n ''id'' = getAttribute d n ''id''))"
proof -
  define d1 where "d1 = (if \<not> hasAttribute d region ''id''
                then (case randomString d of
                        (r, d') \<Rightarrow> setAttribute region ''id'' (''region-'' @ r) d')
                else d)"
  define d3 where "d3 = setAttribute region ''role'' ''region''
                          (classList_add region COLLAPSIBLE_REGION_CLASS d1)"
  define s where "s = (if isExpanded w d3 then removeAttribute region ''hidden'' d3
                       else setAttribute region ''hidden'' [] d3)"
  have run: "addRegionElement w region d = addRegionId w (id_prop s region) s"
    by (simp add: addRegionElement_def Let_def d1_def d3_def s_def)
  have a1: "getAttribute d1 n a = getAttribute d n a" if "a \<noteq> ''id'' \<or> hasAttribute d region ''id''" for n a
    using that
    by (auto simp add: d1_def randomString_def getAttribute_setAttribute getAttribute_random_drawn)
  have a3: "getAttribute s n a = getAttribute d1 n a" if "a \<noteq> ''role''" "a \<noteq> ''hidden''" for n a
    using that
    by (simp add: s_def d3_def getAttribute_setAttribute getAttribute_removeAttribute
        getAttribute_classList_add)
  have "getAttribute s (controlElement w) ''aria-controls'' =
        getAttribute d (controlElement w) ''aria-controls''"
    by (simp add: a3 a1)
  moreover have "getAttribute s n ''id'' = getAttribute d n ''id''" if "hasAttribute d region ''id''" for n
    using that by (simp add: a3 a1)
  ultimately show ?thesis
    using run by blast
qed

lemma regionIds_same_controls:
  "getAttribute s (controlElement w) ''aria-controls'' =
   getAttribute d (controlElement w) ''aria-controls'' \<Longrightarrow> regionIds w s = regionIds w d"
  by (simp add: regionIds_def)

lemma id_prop_addRegionId: "id_prop (addRegionId w i d) n = id_prop d n"
  by (simp add: id_prop_def getAttribute_addRegionId)

text \<open>A region whose \<open>id\<close> attribute is the empty string is given no generated
  id, and \<open>addRegionId\<close> takes the empty string that \<open>find\<close> returns for one not
  found: each call appends the empty id again.\<close>

lemma addRegionElement_empty_id_twice:
  "getAttribute (region_page [(''id'', [])]) 3 ''id'' = Some [] \<and>
   regionIds widget (addRegionElement widget 3 (region_page [(''id'', [])])) = [[]] \<and>
   regionIds widget
     (addRegionElement widget 3 (addRegionElement widget 3 (region_page [(''id'', [])]))) =
     [[], []]"
  by code_simp

text \<open>
  C6, as stated, reads: for every region, adding it twice leaves exactly one occurrence
  of its id in the id list of the control. \<open>addRegionId\<close> inserts an id only when the
  list does not hold it, and does nothing else to the list. When the list already holds
  the id twice, as in \<open>a a\<close>, adding the region \<open>a\<close> (element 3) twice leaves it
  twice. The list is kept as a text with spaces between the ids: a region with the id
  \<open>x y\<close> is entered as the two ids \<open>x\<close> and \<open>y\<close>, at each call, and the list
  never holds the id \<open>x y\<close>.
\<close>

theorem addRegionElement_twice_counterexample:
  "id_prop (page [(''aria-controls'', ''a a'')]) 3 = ''a'' \<and>
   regionIds widget
     (addRegionElement widget 3
       (addRegionElement widget 3 (page [(''aria-controls'', ''a a'')]))) = [''a'', ''a''] \<and>
   count_list
     (regionIds widget
       (addRegionElement widget 3
         (addRegionElement widget 3 (page [(''aria-controls'', ''a a'')])))) ''a'' = 2 \<and>
   id_prop (region_page [(''id'', ''x y'')]) 3 = ''x y'' \<and>
   regionIds widget
     (addRegionElement widget 3
       (addRegionElement widget 3 (region_page [(''id'', ''x y'')]))) =
     [''x'', ''y'', ''x'', ''y''] \<and>
   count_list
     (regionIds widget
       (addRegionElement widget 3
         (addRegionElement widget 3 (region_page [(''id'', ''x y'')])))) ''x y'' = 0"
  by code_simp

text \<open>
  C6, amended. For regions whose id, after the first call, is not empty and has no
  space in it: the second \<open>addRegionElement\<close> with a region of the same id leaves the
  id list as the first call left it; the first call appends the id if the list did not
  hold it and leaves the list alone otherwise. So the id occurs exactly once afterwards
  when it was absent before, and as often as before when it was present.
\<close>

theorem addRegionElement_twice:
  assumes "id_prop (addRegionElement w r1 d) r1 = rid"
    and "id_prop (addRegionElement w r1 d) r2 = rid"
    and "rid \<noteq> []" and "CHR '' '' \<notin> set rid"
  shows
    "regionIds w (addRegionElement w r2 (addRegionElement w r1 d)) =
       regionIds w (addRegionElement w r1 d) \<and>
     regionIds w (addRegionElement w r1 d) =
       (if rid \<in> set (regionIds w d) then regionIds w d else regionIds w d @ [rid]) \<and>
     count_list (regionIds w (addRegionElement w r2 (addRegionElement w r1 d))) rid =
       (if rid \<in> set (regionIds w d) then count_list (regionIds w d) rid else 1)"
proof -
  let ?d1 = "addRegionElement w r1 d"
  obtain s where s: "?d1 = addRegionId w (id_prop s r1) s"
    and s_controls: "getAttribute s (controlElement w) ''aria-controls'' =
         getAttribute d (controlElement w) ''aria-controls''"
    using addRegionElement_steps [of w r1 d] by blast
  from assms(1) have "id_prop s r1 = rid"
    by (subst (asm) s) (simp add: id_prop_addRegionId)
  with s have "?d1 = addRegionId w rid s"
    by simp
  then have first: "regionIds w ?d1 =
      (if rid \<in> set (regionIds w d) then regionIds w d else regionIds w d @ [rid])"
    using regionIds_addRegionId [OF assms(3,4), of w s] regionIds_same_controls [OF s_controls]
    by simp
  then have present: "rid \<in> set (regionIds w ?d1)"
    by simp
  from assms(2,3) have has_id: "hasAttribute ?d1 r2 ''id''"
    by (auto simp add: id_prop_def hasAttribute_getAttribute split: option.splits)
  obtain t where t: "addRegionElement w r2 ?d1 = addRegionId w (id_prop t r2) t"
    and t_controls: "getAttribute t (controlElement w) ''aria-controls'' =
         getAttribute ?d1 (controlElement w) ''aria-controls''"
    and t_id: "hasAttribute ?d1 r2 ''id'' \<longrightarrow>
         (\<forall>n. getAttribute t n ''id'' = getAttribute ?d1 n ''id'')"
    using addRegionElement_steps [of w r2 ?d1] by blast
  from t_id has_id assms(2) have "id_prop t r2 = rid"
    by (simp add: id_prop_def)
  with t have "addRegionElement w r2 ?d1 = addRegionId w rid t"
    by simp
  then have second: "regionIds w (addRegionElement w r2 ?d1) = regionIds w ?d1"
    using regionIds_addRegionId [OF assms(3,4), of w t] regionIds_same_controls [OF t_controls]
      present
    by simp
  have "count_list (regionIds w ?d1) rid =
      (if rid \<in> set (regionIds w d) then count_list (regionIds w d) rid else 1)"
    by (simp add: first count_list_0_iff)
  with first second show ?thesis
    by simp
qed

theorem addRegionElement_twice_witness:
  "id_prop (addRegionElement widget 3 (page [])) 3 = ''a'' \<and>
   regionIds widget (page []) = [] \<and>
   regionIds widget (addRegionElement widget 3 (addRegionElement widget 3 (page []))) = [''a''] \<and>
   count_list
     (regionIds widget (addRegionElement widget 3 (addRegionElement widget 3 (page [])))) ''a'' = 1"
proof -
  have carried: "id_prop (addRegionElement widget 3 (page [])) 3 = ''a''"
    by code_simp
  have word: "''a'' \<noteq> []" "CHR '' '' \<notin> set ''a''"
    by simp_all
  have before: "regionIds widget (page []) = []"
    by code_simp
  from addRegionElement_twice [OF carried carried word] before
  have "regionIds widget (addRegionElement widget 3 (addRegionElement widget 3 (page []))) = [''a''] \<and>
        count_list
          (regionIds widget (addRegionElement widget 3 (addRegionElement widget 3 (page [])))) ''a'' = 1"
    by simp
  with carried before show ?thesis
    by simp
qed

section \<open>Removing a region\<close>

text \<open>
  C1. \<open>removeRegionElement(region)\<close> should take the id of the region out of the id
  list of the control and leave the other ids. The filter keeps the ids equal to the
  region's id instead: with the list \<open>a b\<close>, removing the region \<open>a\<close> (element 3)
  leaves the list \<open>a\<close>, where \<open>b\<close> was expected.
\<close>

theorem removeRegionElement_keeps_only_removed_id:
  "regionIds widget (page [(''aria-controls'', ''a b'')]) = [''a'', ''b''] \<and>
   id_prop (page [(''aria-controls'', ''a b'')]) 3 = ''a'' \<and>
   regionIds widget
     (removeRegionElement widget (Some 3) (page [(''aria-controls'', ''a b'')])) = [''a'']"
  by code_simp

text \<open>
  C3. Removing a region whose id is not in the list should change nothing. With the
  list \<open>a\<close>, removing the region \<open>b\<close> (element 4) empties the attribute: the filter
  keeps no id and the empty join is written back.
\<close>

theorem removeRegionElement_uncontrolled_clears_list:
  "getAttribute (page [(''aria-controls'', ''a'')]) 2 ''aria-controls'' = Some ''a'' \<and>
   id_prop (page [(''aria-controls'', ''a'')]) 4 = ''b'' \<and>
   getAttribute (removeRegionElement widget (Some 4) (page [(''aria-controls'', ''a'')]))
     2 ''aria-controls'' = Some []"
  by code_simp

section \<open>Exceptions of the region lookup\<close>

text \<open>The lookup returns, and drops the ids that resolve to no element, when the
  control has no \<open>aria-controls\<close> attribute and when every id of the list is a
  plain identifier. A control without \<open>aria-expanded\<close> counts as collapsed.\<close>

lemma query_ids_identifiers:
  "list_all plain_identifier ids \<Longrightarrow>
   query_ids d ids =
     Inr (map (\<lambda>i. find (\<lambda>n. matches_id d n i) (preorder (document d))) ids)"
  by (induction ids) (simp_all add: querySelector_id_def)

lemma regionElements_identifiers:
  "list_all plain_identifier (regionIds w d) \<Longrightarrow>
   regionElements w d =
     Inr (non_null
       (map (\<lambda>i. find (\<lambda>n. matches_id d n i) (preorder (document d)))
         (regionIds w d)))"
  by (simp add: regionElements_def query_ids_identifiers)

lemma regionElements_no_controls:
  "getAttribute d (controlElement w) ''aria-controls'' = None \<Longrightarrow> regionElements w d = Inr []"
  by (simp add: regionElements_def regionIds_def)

lemma isExpanded_missing:
  "getAttribute d (controlElement w) ''aria-expanded'' = None \<Longrightarrow> \<not> isExpanded w d"
  by (simp add: isExpanded_def)

text \<open>
  C2. No public operation should throw, whatever the attributes of the control. With an
  empty \<open>aria-controls\<close> attribute the id list is the list of the empty string, the
  selector \<open>#\<close> is invalid, and \<open>getRegionElements\<close>, \<open>collapse\<close>, \<open>expand\<close> and
  \<open>toggle\<close> throw a SyntaxError. The component writes such an attribute itself:
  \<open>removeRegionElement\<close> does when no id is kept.
\<close>

theorem operations_throw_on_empty_aria_controls:
  "regionElements widget (page [(''aria-controls'', [])]) = Inl SyntaxError \<and>
   fst (collapse widget (page [(''aria-controls'', [])])) = Inl SyntaxError \<and>
   fst (expand widget (page [(''aria-controls'', [])])) = Inl SyntaxError \<and>
   fst (toggle widget (page [(''aria-controls'', [])])) = Inl SyntaxError \<and>
   fst (expand widget
     (removeRegionElement widget (Some 4) (page [(''aria-controls'', ''a'')]))) = Inl SyntaxError"
  by code_simp

text \<open>
  C8. An id of the list that resolves to no element should be dropped from the result
  of \<open>getRegionElements\<close> without an error. With the list \<open>a 1\<close>, where no element
  has the id \<open>1\<close>, the selector \<open>#1\<close> is invalid and the lookup throws, where the
  result \<open>[a]\<close> was expected; \<open>expand\<close> and \<open>collapse\<close> throw with it.
\<close>

theorem regionElements_throws_on_stale_id:
  "find (\<lambda>n. getAttribute (page [(''aria-controls'', ''a 1'')]) n ''id'' = Some ''1'')
     (preorder (document (page [(''aria-controls'', ''a 1'')]))) = None \<and>
   regionElements widget (page [(''aria-controls'', ''a 1'')]) = Inl SyntaxError \<and>
   fst (expand widget (page [(''aria-controls'', ''a 1'')])) = Inl SyntaxError \<and>
   fst (collapse widget (page [(''aria-controls'', ''a 1'')])) = Inl SyntaxError"
  by code_simp

end
